theory Spec2Isabelle
  imports Complex_Main "HOL-Library.Char_ord" "HOL-Library.List_Lexorder"
    "HOL-Library.Product_Lexorder"
begin

section \<open>Strings as Python handles them\<close>

text \<open>
  A Python \<open>str\<close> is modelled as a \<open>string\<close>, one \<open>char\<close> per code point (code
  points below 256, which covers every literal the engine compares: the only non-ASCII
  character in them is U+00ED, written \<open>CHR 0xED\<close>). \<open>isspace\<close> is \<open>str.isspace\<close> on that range,
  \<open>strip\<close> is \<open>str.strip()\<close> and \<open>split_dot\<close> is \<open>str.split(".")\<close>.
\<close>

definition isspace :: "char \<Rightarrow> bool" where
  "isspace c =
     (let n = (of_char c :: nat)
      in (9 \<le> n \<and> n \<le> 13) \<or> (28 \<le> n \<and> n \<le> 32) \<or> n = 133 \<or> n = 160)"

definition strip :: "string \<Rightarrow> string" where
  "strip s = rev (dropWhile isspace (rev (dropWhile isspace s)))"

fun split_dot :: "string \<Rightarrow> string list" where
  "split_dot [] = [[]]"
| "split_dot (c # cs) =
     (if c = CHR ''.'' then [] # split_dot cs
      else (c # hd (split_dot cs)) # tl (split_dot cs))"

definition startswith :: "string \<Rightarrow> string \<Rightarrow> bool" where
  "startswith s p = (take (length p) s = p)"

section \<open>Account codes (\<open>app.py\<close>, lines 117-140)\<close>

text \<open>
  \<open>normalizar_codigo\<close> is applied to values that are already \<open>str\<close> (the keys of
  \<open>plano_desc\<close>); its \<open>None\<close> branch yields the empty string, which is the string
  \<open>[]\<close> here.
\<close>

definition normalizar_codigo :: "string \<Rightarrow> string" where
  "normalizar_codigo cod = strip cod"

definition codigo_blocos :: "string \<Rightarrow> string list" where
  "codigo_blocos cod =
     (let p = split_dot (normalizar_codigo cod);
          p = (if length p < 4 then p @ replicate (4 - length p) ''00'' else p)
      in take 4 p)"

definition codigo_pais :: "string \<Rightarrow> string list" where
  "codigo_pais cod =
     (let p = codigo_blocos cod; a = p ! 0; b = p ! 1; c = p ! 2; d = p ! 3
      in (if d \<noteq> ''00'' then [a @ ''.'' @ b @ ''.'' @ c @ ''.00''] else [])
       @ (if c \<noteq> ''00'' then [a @ ''.'' @ b @ ''.00.00''] else [])
       @ (if b \<noteq> ''00'' then [a @ ''.00.00.00''] else []))"

definition eh_sintetico :: "string \<Rightarrow> bool" where
  "eh_sintetico cod = (codigo_blocos cod ! 3 = ''00'')"

section \<open>Facts about strings and codes\<close>

lemma split_dot_not_Nil: "split_dot s \<noteq> []"
  by (induction s) auto

lemma split_dot_append:
  "split_dot (xs @ CHR ''.'' # ys) = split_dot xs @ split_dot ys"
proof (induction xs)
  case Nil
  show ?case by simp
next
  case (Cons x xs)
  have ne: "split_dot xs \<noteq> []" by (rule split_dot_not_Nil)
  show ?case using Cons ne by (cases "split_dot xs") auto
qed

lemma split_dot_no_dot: "CHR ''.'' \<notin> set s \<Longrightarrow> split_dot s = [s]"
  by (induction s) auto

lemma split_dot_segments: "p \<in> set (split_dot s) \<Longrightarrow> CHR ''.'' \<notin> set p"
proof (induction s arbitrary: p)
  case Nil
  then show ?case by simp
next
  case (Cons c cs)
  have ne: "split_dot cs \<noteq> []" by (rule split_dot_not_Nil)
  then obtain x xs where sp: "split_dot cs = x # xs" by (cases "split_dot cs") auto
  show ?case
  proof (cases "c = CHR ''.''")
    case True
    with Cons show ?thesis by auto
  next
    case False
    with Cons.prems sp have "p = c # x \<or> p \<in> set xs" by auto
    then show ?thesis
    proof
      assume "p = c # x"
      moreover have "CHR ''.'' \<notin> set x" using Cons.IH [of x] sp by simp
      ultimately show ?thesis using False by auto
    next
      assume "p \<in> set xs"
      then show ?thesis using Cons.IH [of p] sp by simp
    qed
  qed
qed

lemma length_codigo_blocos: "length (codigo_blocos cod) = 4"
  by (simp add: codigo_blocos_def Let_def)

lemma dropWhile_self: "xs \<noteq> [] \<Longrightarrow> \<not> P (hd xs) \<Longrightarrow> dropWhile P xs = xs"
  by (cases xs) auto

lemma strip_id: "s \<noteq> [] \<Longrightarrow> \<not> isspace (hd s) \<Longrightarrow> \<not> isspace (last s) \<Longrightarrow> strip s = s"
proof -
  assume ne: "s \<noteq> []" and h: "\<not> isspace (hd s)" and l: "\<not> isspace (last s)"
  have a: "dropWhile isspace s = s" using ne h by (rule dropWhile_self)
  have "rev s \<noteq> []" using ne by simp
  moreover have "\<not> isspace (hd (rev s))" using ne l by (simp add: hd_rev)
  ultimately have b: "dropWhile isspace (rev s) = rev s" by (rule dropWhile_self)
  show ?thesis by (simp add: strip_def a b)
qed

lemma strip_hd: "strip s \<noteq> [] \<Longrightarrow> \<not> isspace (hd (strip s))"
proof -
  assume ne: "strip s \<noteq> []"
  define t where "t = dropWhile isspace s"
  have st: "strip s = rev (dropWhile isspace (rev t))" by (simp add: strip_def t_def)
  have "rev t = takeWhile isspace (rev t) @ dropWhile isspace (rev t)" by simp
  then have "rev (rev t) = rev (takeWhile isspace (rev t) @ dropWhile isspace (rev t))"
    by (rule arg_cong)
  then have t: "t = strip s @ rev (takeWhile isspace (rev t))"
    by (simp only: rev_rev_ident rev_append st)
  then have "hd t = hd (strip s)" using ne by (metis hd_append2)
  moreover have "t \<noteq> []" using t ne by auto
  then have "\<not> isspace (hd t)" unfolding t_def by (rule hd_dropWhile)
  ultimately show ?thesis by simp
qed

lemma strip_last: "strip s \<noteq> [] \<Longrightarrow> \<not> isspace (last (strip s))"
proof -
  assume ne: "strip s \<noteq> []"
  define u where "u = dropWhile isspace (rev (dropWhile isspace s))"
  have st: "strip s = rev u" by (simp add: strip_def u_def)
  then have une: "u \<noteq> []" using ne by auto
  then have "\<not> isspace (hd u)" unfolding u_def by (rule hd_dropWhile)
  moreover have "last (rev u) = hd u" using une by (simp add: last_rev)
  ultimately show ?thesis by (simp add: st)
qed

lemma strip_Nil: "strip [] = []"
  by (simp add: strip_def)

lemma strip_strip: "strip (strip s) = strip s"
proof (cases "strip s = []")
  case True
  then show ?thesis by (simp add: strip_Nil)
next
  case False
  then show ?thesis by (intro strip_id strip_hd strip_last)
qed

lemma hd_split_dot: "hd (split_dot s) = takeWhile (\<lambda>c. c \<noteq> CHR ''.'') s"
  by (induction s) auto

lemma not_isspace_dot: "\<not> isspace CHR ''.''"
  by (simp add: isspace_def)

lemma not_isspace_zero: "\<not> isspace CHR ''0''"
  by (simp add: isspace_def)

text \<open>The first block of a code never starts with white space.\<close>
lemma bloco0_hd: "codigo_blocos cod ! 0 \<noteq> [] \<Longrightarrow> \<not> isspace (hd (codigo_blocos cod ! 0))"
proof -
  let ?s = "strip cod"
  assume ne: "codigo_blocos cod ! 0 \<noteq> []"
  have sp: "split_dot ?s \<noteq> []" by (rule split_dot_not_Nil)
  have "codigo_blocos cod ! 0 = hd (split_dot ?s)"
    using sp by (cases "split_dot ?s") (auto simp: codigo_blocos_def normalizar_codigo_def Let_def)
  then have eq: "codigo_blocos cod ! 0 = takeWhile (\<lambda>c. c \<noteq> CHR ''.'') ?s" by (simp add: hd_split_dot)
  then have sne: "?s \<noteq> []" using ne by auto
  have "hd (takeWhile (\<lambda>c. c \<noteq> CHR ''.'') ?s) = hd ?s" using ne eq by (cases ?s) (auto split: if_splits)
  then show ?thesis using strip_hd [OF sne] eq by simp
qed

lemma blocos_no_dot: "p \<in> set (codigo_blocos cod) \<Longrightarrow> CHR ''.'' \<notin> set p"
proof -
  assume "p \<in> set (codigo_blocos cod)"
  then have "p \<in> set (split_dot (strip cod)) \<or> p = ''00''"
    by (auto simp: codigo_blocos_def normalizar_codigo_def Let_def dest!: in_set_takeD split: if_splits)
  then show ?thesis using split_dot_segments by auto
qed

text \<open>The blocks of a four-segment string whose first segment does not start with white
  space and whose last segment does not end with it.\<close>
lemma blocos_join:
  assumes "CHR ''.'' \<notin> set a" "CHR ''.'' \<notin> set b" "CHR ''.'' \<notin> set c" "CHR ''.'' \<notin> set d"
    and "a \<noteq> [] \<Longrightarrow> \<not> isspace (hd a)" and "d \<noteq> [] \<Longrightarrow> \<not> isspace (last d)"
  shows "codigo_blocos (a @ ''.'' @ b @ ''.'' @ c @ ''.'' @ d) = [a, b, c, d]"
proof -
  let ?s = "a @ ''.'' @ b @ ''.'' @ c @ ''.'' @ d"
  have h: "\<not> isspace (hd ?s)" using assms(5) not_isspace_dot by (cases a) auto
  have l: "\<not> isspace (last ?s)" using assms(6) not_isspace_dot by (cases d rule: rev_cases) auto
  have "strip ?s = ?s" using h l by (intro strip_id) auto
  moreover have "split_dot ?s = [a, b, c, d]"
    using assms(1-4) by (simp add: split_dot_append split_dot_no_dot)
  ultimately show ?thesis by (simp add: codigo_blocos_def normalizar_codigo_def Let_def)
qed

section \<open>Tables of the database (\<open>app.py\<close>, lines 223-271)\<close>

text \<open>
  A \<open>data\<close> is a point on the time line: what \<open>pd.to_datetime\<close> returns, and the
  position of an ISO date text (the application writes \<open>date.isoformat()\<close>, whose text
  order is the order of the dates). \<open>data_pagamento\<close> is the column after
  \<open>pd.to_datetime(..., errors="coerce")\<close>: \<open>None\<close> is \<open>NaT\<close>. An amount
  (\<open>FLOAT\<close>) is a real number: rounding is outside this model.
\<close>

abbreviation Entrada :: string where "Entrada \<equiv> ''Entrada''"
abbreviation Saida :: string where "Saida \<equiv> ''Sa'' @ [CHR 0xED] @ ''da''"

type_synonym data = int

record conta =
  codigo :: string
  descricao :: string
  tipo :: string
  natureza :: string
  grupo_dre :: string
  grupo_dfc :: string
  aceita_lancamento :: bool

record lancamento =
  data_pagamento :: "data option"
  valor :: real
  status :: string
  plano_conta_id :: string

record saldo =
  saldo_id :: nat
  data_referencia :: data
  tipo_saldo :: string
  valor_saldo :: real

record banco =
  plano_contas :: "conta list"
  lancamentos :: "lancamento list"
  saldos :: "saldo list"
  configuracoes :: "string \<rightharpoonup> string"

text \<open>\<open>transformar_plano\<close> (lines 193-218), the only writer of \<open>plano_contas\<close>: a row
  of the spreadsheet is a description and a code, \<open>None\<close> where the cell is empty.\<close>

definition transformar_plano :: "(string \<times> string option) list \<Rightarrow> conta list" where
  "transformar_plano df_original =
     concat (map (\<lambda>(desc, cel).
       case cel of
         None \<Rightarrow> []
       | Some cod0 \<Rightarrow>
           (let cod = strip cod0;
                nt = (if startswith cod ''1'' then Entrada else Saida);
                tp = (if nt = Entrada then ''Receita'' else ''Despesa'')
            in [\<lparr>codigo = cod, descricao = desc, tipo = tp, natureza = nt, grupo_dre = tp,
                 grupo_dfc = ''Operacional'', aceita_lancamento = (\<not> eh_sintetico cod)\<rparr>]))
       df_original)"

section \<open>Hierarchy of the chart (\<open>app.py\<close>, lines 1028-1059)\<close>

text \<open>\<open>df_plano\<close> is the table \<open>plano_contas\<close>; its codes are stripped when it is read
  (line 1029). A dictionary built by a comprehension keeps the last value of a key.\<close>

definition plano_desc :: "conta list \<Rightarrow> string \<rightharpoonup> string" where
  "plano_desc df_plano = map_of (rev (map (\<lambda>row. (strip (codigo row), descricao row)) df_plano))"

definition plano_nat :: "conta list \<Rightarrow> string \<rightharpoonup> string" where
  "plano_nat df_plano = map_of (rev (map (\<lambda>row. (strip (codigo row), natureza row)) df_plano))"

text \<open>\<open>plano_desc.keys()\<close>, in insertion order.\<close>

definition chaves :: "conta list \<Rightarrow> string list" where
  "chaves df_plano = rev (remdups (rev (map (\<lambda>row. strip (codigo row)) df_plano)))"

text \<open>The inner loop of lines 1041-1045: the first candidate that is a key.\<close>

definition pai_existente :: "conta list \<Rightarrow> string \<Rightarrow> string option" where
  "pai_existente df_plano cod = find (\<lambda>p. plano_desc df_plano p \<noteq> None) (codigo_pais cod)"

text \<open>Lines 1037-1050. \<open>if pai_existente:\<close> is false for \<open>None\<close> and for the empty
  string; \<open>filhos[p]\<close> is read only for a key \<open>p\<close> of \<open>plano_desc\<close>, which is a key of
  \<open>filhos\<close>.\<close>

definition filhos :: "conta list \<Rightarrow> string \<rightharpoonup> string list" where
  "filhos df_plano =
     (let filhos0 = (\<lambda>cod. if plano_desc df_plano cod \<noteq> None then Some [] else None);
          filhos1 = fold (\<lambda>cod f.
                      case pai_existente df_plano cod of
                        None \<Rightarrow> f
                      | Some p \<Rightarrow> if p = [] then f
                                  else (case f p of None \<Rightarrow> f | Some l \<Rightarrow> f(p \<mapsto> l @ [cod])))
                    (chaves df_plano) filhos0
      in (\<lambda>k. map_option (\<lambda>l. sort (remdups l)) (filhos1 k)))"

text \<open>\<open>filhos.get(cod, [])\<close>.\<close>

definition filhos_get :: "conta list \<Rightarrow> string \<Rightarrow> string list" where
  "filhos_get df_plano cod = (case filhos df_plano cod of None \<Rightarrow> [] | Some l \<Rightarrow> l)"

definition tem_pai :: "conta list \<Rightarrow> string \<Rightarrow> bool" where
  "tem_pai df_plano cod = list_ex (\<lambda>p. plano_desc df_plano p \<noteq> None) (codigo_pais cod)"

definition roots_de :: "conta list \<Rightarrow> string \<Rightarrow> string list" where
  "roots_de df_plano nt =
     sort [c \<leftarrow> chaves df_plano. \<not> tem_pai df_plano c \<and> plano_nat df_plano c = Some nt]"

definition roots_entrada :: "conta list \<Rightarrow> string list" where
  "roots_entrada df_plano = roots_de df_plano Entrada"

definition roots_saida :: "conta list \<Rightarrow> string list" where
  "roots_saida df_plano = roots_de df_plano Saida"

text \<open>The level of a code: the position of its last block other than \<open>00\<close> (0 when the
  second, third and fourth blocks are all \<open>00\<close>). It measures how specific a code is.\<close>

definition nivel :: "string \<Rightarrow> nat" where
  "nivel cod =
     (let p = codigo_blocos cod
      in if p ! 3 \<noteq> ''00'' then 3 else if p ! 2 \<noteq> ''00'' then 2
         else if p ! 1 \<noteq> ''00'' then 1 else 0)"

section \<open>Candidates are strictly less specific\<close>

lemma blocos_4: "\<exists>a b c d. codigo_blocos cod = [a, b, c, d]"
  using length_codigo_blocos [of cod] by (auto simp: numeral_eq_Suc length_Suc_conv)

lemma codigo_pais_cases:
  assumes bl: "codigo_blocos cod = [a, b, c, d]" and p: "p \<in> set (codigo_pais cod)"
  shows "(d \<noteq> ''00'' \<and> p = a @ ''.'' @ b @ ''.'' @ c @ ''.00'')
      \<or> (c \<noteq> ''00'' \<and> p = a @ ''.'' @ b @ ''.00.00'')
      \<or> (b \<noteq> ''00'' \<and> p = a @ ''.00.00.00'')"
  using p bl by (auto simp: codigo_pais_def Let_def split: if_splits)

lemma blocos_pais:
  assumes bl: "codigo_blocos cod = [a, b, c, d]"
  shows "codigo_blocos (a @ ''.'' @ b @ ''.'' @ c @ ''.00'') = [a, b, c, ''00'']"
    and "codigo_blocos (a @ ''.'' @ b @ ''.00.00'') = [a, b, ''00'', ''00'']"
    and "codigo_blocos (a @ ''.00.00.00'') = [a, ''00'', ''00'', ''00'']"
proof -
  have nd: "CHR ''.'' \<notin> set a" "CHR ''.'' \<notin> set b" "CHR ''.'' \<notin> set c"
    using blocos_no_dot [of _ cod] bl by auto
  have ha: "a \<noteq> [] \<Longrightarrow> \<not> isspace (hd a)" using bloco0_hd [of cod] bl by simp
  have z: "CHR ''.'' \<notin> set ''00''" "''00'' \<noteq> [] \<Longrightarrow> \<not> isspace (last ''00'')"
    by (simp_all add: isspace_def)
  show "codigo_blocos (a @ ''.'' @ b @ ''.'' @ c @ ''.00'') = [a, b, c, ''00'']"
    using blocos_join [OF nd(1) nd(2) nd(3) z(1) ha z(2)] by simp
  show "codigo_blocos (a @ ''.'' @ b @ ''.00.00'') = [a, b, ''00'', ''00'']"
    using blocos_join [OF nd(1) nd(2) z(1) z(1) ha z(2)] by simp
  show "codigo_blocos (a @ ''.00.00.00'') = [a, ''00'', ''00'', ''00'']"
    using blocos_join [OF nd(1) z(1) z(1) z(1) ha z(2)] by simp
qed

lemma nivel_pais: "p \<in> set (codigo_pais cod) \<Longrightarrow> nivel p < nivel cod"
proof -
  assume p: "p \<in> set (codigo_pais cod)"
  obtain a b c d where bl: "codigo_blocos cod = [a, b, c, d]"
    using blocos_4 [of cod] by blast
  show ?thesis
    using codigo_pais_cases [OF bl p] blocos_pais [OF bl] bl
    by (auto simp: nivel_def Let_def)
qed

lemma nivel_le_3: "nivel cod \<le> 3"
  by (simp add: nivel_def Let_def)

section \<open>Facts about the hierarchy\<close>

lemma plano_desc_chaves: "(plano_desc df_plano p \<noteq> None) = (p \<in> set (chaves df_plano))"
proof -
  have "(plano_desc df_plano p \<noteq> None) = (p \<in> fst ` set (rev (map (\<lambda>row. (strip (codigo row), descricao row)) df_plano)))"
    unfolding plano_desc_def by (simp add: map_of_eq_None_iff del: not_None_eq)
  also have "\<dots> = (p \<in> set (chaves df_plano))"
    by (auto simp: chaves_def image_iff)
  finally show ?thesis .
qed


lemma distinct_chaves: "distinct (chaves df_plano)"
  by (simp add: chaves_def)

lemma codigo_pais_not_Nil: "p \<in> set (codigo_pais cod) \<Longrightarrow> p \<noteq> []"
  by (auto simp: codigo_pais_def Let_def split: if_splits)

lemma pai_existente_Some:
  "pai_existente df_plano cod = Some p \<Longrightarrow> p \<in> set (codigo_pais cod) \<and> p \<in> set (chaves df_plano)"
  unfolding pai_existente_def
  by (auto simp: find_Some_iff plano_desc_chaves simp del: not_None_eq)


lemma fold_filhos:
  "fold (\<lambda>cod f. case pai cod of None \<Rightarrow> f
        | Some p \<Rightarrow> if p = [] then f else (case f p of None \<Rightarrow> f | Some l \<Rightarrow> f(p \<mapsto> l @ [cod])))
     xs f0 k =
   (case f0 k of None \<Rightarrow> None
    | Some l \<Rightarrow> Some (l @ [cod \<leftarrow> xs. pai cod = Some k \<and> k \<noteq> []]))"
proof (induction xs arbitrary: f0)
  case Nil
  show ?case by (simp split: option.splits)
next
  case (Cons x xs)
  show ?case
    by (auto simp: Cons.IH split: option.splits)
qed

lemma filhos_get_eq:
  "filhos_get df_plano k = sort [cod \<leftarrow> chaves df_plano. pai_existente df_plano cod = Some k]"
proof -
  let ?l = "[cod \<leftarrow> chaves df_plano. pai_existente df_plano cod = Some k]"
  have a: "[cod \<leftarrow> chaves df_plano. pai_existente df_plano cod = Some k \<and> k \<noteq> []] = ?l"
    by (rule filter_cong) (auto dest: pai_existente_Some codigo_pais_not_Nil)
  have d: "remdups ?l = ?l" using distinct_chaves by (simp add: distinct_remdups_id)
  show ?thesis
  proof (cases "k \<in> set (chaves df_plano)")
    case True
    then show ?thesis
      by (simp add: filhos_get_def filhos_def fold_filhos plano_desc_chaves a d del: not_None_eq)
  next
    case False
    then have "?l = []" by (auto simp: filter_empty_conv dest: pai_existente_Some)
    with False show ?thesis
      by (simp add: filhos_get_def filhos_def fold_filhos plano_desc_chaves del: not_None_eq)
  qed
qed

lemma set_filhos_get:
  "set (filhos_get df_plano k) = {cod \<in> set (chaves df_plano). pai_existente df_plano cod = Some k}"
  by (auto simp: filhos_get_eq)


lemma nivel_filhos: "ch \<in> set (filhos_get df_plano cod) \<Longrightarrow> nivel cod < nivel ch"
  by (auto simp: set_filhos_get dest!: pai_existente_Some intro: nivel_pais)

section \<open>Roll-up (\<open>app.py\<close>, lines 1061-1074)\<close>

text \<open>\<open>total_no\<close> reads and updates the dictionary \<open>cache_total\<close>: the model takes the
  cache and returns it updated. It recurses on the children of a code, which are strictly
  more specific than the code, so it terminates on every chart.\<close>

type_synonym cache = "string \<times> string \<rightharpoonup> real"

function total_no ::
  "conta list \<Rightarrow> (string \<times> string \<rightharpoonup> real) \<Rightarrow> cache \<Rightarrow> string \<Rightarrow> string \<Rightarrow> real \<times> cache" where
  "total_no df_plano soma_por_codigo cache_total cod nt =
     (case cache_total (cod, nt) of
        Some v \<Rightarrow> (v, cache_total)
      | None \<Rightarrow>
          (let base0 = (case soma_por_codigo (cod, nt) of None \<Rightarrow> 0 | Some v \<Rightarrow> v);
               (base, cache1) =
                 fold (\<lambda>ch (base, cache).
                    let nat_ch = (case plano_nat df_plano ch of None \<Rightarrow> nt | Some n \<Rightarrow> n)
                    in if nat_ch \<noteq> nt then (base, cache)
                       else (let (t, cache') = total_no df_plano soma_por_codigo cache ch nt
                             in (base + t, cache')))
                  (filhos_get df_plano cod) (base0, cache_total)
           in (base, cache1((cod, nt) \<mapsto> base))))"
  by pat_completeness auto
termination
proof (relation "measure (\<lambda>(df_plano, soma_por_codigo, cache_total, cod, nt). 3 - nivel cod)")
  show "wf (measure (\<lambda>(df_plano, soma_por_codigo, cache_total, cod, nt). 3 - nivel cod))" by simp
next
  fix df_plano :: "conta list" and soma_por_codigo :: "string \<times> string \<rightharpoonup> real"
    and cache_total :: cache and cod nt :: string and x :: real and ch :: string
    and xa :: "real \<times> cache" and xb :: real and y :: cache and xc :: string
  assume "ch \<in> set (filhos_get df_plano cod)"
  then have "nivel cod < nivel ch" by (rule nivel_filhos)
  moreover have "nivel ch \<le> 3" by (rule nivel_le_3)
  ultimately show "((df_plano, soma_por_codigo, y, ch, nt), (df_plano, soma_por_codigo, cache_total, cod, nt))
      \<in> measure (\<lambda>(df_plano, soma_por_codigo, cache_total, cod, nt). 3 - nivel cod)"
    by simp
qed

section \<open>Configuration (\<open>app.py\<close>, lines 145-188 and 889-893)\<close>

definition get_config :: "banco \<Rightarrow> string \<Rightarrow> string \<Rightarrow> string" where
  "get_config db chave padrao = (case configuracoes db chave of None \<Rightarrow> padrao | Some v \<Rightarrow> v)"

definition get_config_bool :: "banco \<Rightarrow> string \<Rightarrow> bool \<Rightarrow> bool" where
  "get_config_bool db chave padrao =
     (get_config db chave (if padrao then ''True'' else ''False'') = ''True'')"

abbreviation modelo_menos :: string where
  "modelo_menos \<equiv> ''Saldo + Entradas - Sa'' @ [CHR 0xED] @ ''das''"
abbreviation modelo_mais :: string where
  "modelo_mais \<equiv> ''Saldo + Entradas + Sa'' @ [CHR 0xED] @ ''das''"
abbreviation modelo_parenteses :: string where
  "modelo_parenteses \<equiv> ''Saldo + (Entradas - Sa'' @ [CHR 0xED] @ ''das)''"
abbreviation modelo_entradas :: string where
  "modelo_entradas \<equiv> ''Saldo + Somente Entradas''"
abbreviation modelo_saidas :: string where
  "modelo_saidas \<equiv> ''Saldo + Somente Sa'' @ [CHR 0xED] @ ''das''"

record config =
  modelo :: string
  usar_saldo_lancado :: bool
  usar_saldo_calculado :: bool
  considerar_somente_conciliados :: bool
  forcar_saida_negativa :: bool

definition config_oficial :: "banco \<Rightarrow> config" where
  "config_oficial db =
     \<lparr>modelo = get_config db ''modelo_dfc_oficial'' modelo_menos,
      usar_saldo_lancado = get_config_bool db ''usar_saldo_lancado'' True,
      usar_saldo_calculado = get_config_bool db ''usar_saldo_calculado'' False,
      considerar_somente_conciliados = get_config_bool db ''considerar_somente_conciliados'' True,
      forcar_saida_negativa = get_config_bool db ''forcar_saida_negativa'' True\<rparr>"

section \<open>Movements: join, dates, reconciliation filter, period\<close>

text \<open>A row of \<open>df_mov\<close> is a row of \<open>lancamentos\<close> joined to the row of
  \<open>plano_contas\<close> whose code it names (lines 909-923 and 1234-1245).\<close>

type_synonym mov = "lancamento \<times> conta"

definition df_mov_sql :: "banco \<Rightarrow> mov list" where
  "df_mov_sql db =
     concat (map (\<lambda>l. map (\<lambda>p. (l, p)) [p \<leftarrow> plano_contas db. plano_conta_id l = codigo p])
                 (lancamentos db))"

definition dropna :: "mov list \<Rightarrow> mov list" where
  "dropna df = filter (\<lambda>(l, p). data_pagamento l \<noteq> None) df"

definition conciliados :: "mov list \<Rightarrow> mov list" where
  "conciliados df =
     filter (\<lambda>(l, p). (natureza p = Entrada \<and> status l = ''Recebido'')
                    \<or> (natureza p = Saida \<and> status l = ''Pago'')) df"

definition antes_de :: "mov list \<Rightarrow> data \<Rightarrow> mov list" where
  "antes_de df d = filter (\<lambda>(l, p). case data_pagamento l of None \<Rightarrow> False | Some t \<Rightarrow> t < d) df"

definition no_periodo :: "mov list \<Rightarrow> data \<Rightarrow> data \<Rightarrow> mov list" where
  "no_periodo df d1 d2 =
     filter (\<lambda>(l, p). case data_pagamento l of None \<Rightarrow> False | Some t \<Rightarrow> d1 \<le> t \<and> t \<le> d2) df"

text \<open>The movements both views keep: dates parsed, rows without a date dropped, the
  reconciliation filter applied when the setting asks for it (lines 929-936, 1250-1258).\<close>

definition filtrar_mov :: "bool \<Rightarrow> mov list \<Rightarrow> mov list" where
  "filtrar_mov somente_conciliados df =
     (let df = dropna df in if somente_conciliados then conciliados df else df)"

definition soma_valor :: "mov list \<Rightarrow> real" where
  "soma_valor df = sum_list (map (\<lambda>(l, p). valor l) df)"

definition com_natureza :: "mov list \<Rightarrow> string \<Rightarrow> mov list" where
  "com_natureza df nt = filter (\<lambda>(l, p). natureza p = nt) df"

definition valor_ajustado :: "mov \<Rightarrow> real" where
  "valor_ajustado r = (case r of (l, p) \<Rightarrow> if natureza p = Entrada then valor l else - valor l)"

definition sinal_saidas :: "bool \<Rightarrow> real \<Rightarrow> real" where
  "sinal_saidas forcar total_saidas_raw =
     (if forcar then - \<bar>total_saidas_raw\<bar> else - total_saidas_raw)"

section \<open>Recorded balances\<close>

text \<open>The query of lines 952-963 and 1009-1020: the rows of the given type at or before
  the date, \<open>ORDER BY data_referencia DESC, id DESC LIMIT 1\<close>.\<close>

definition saldo_sql :: "saldo list \<Rightarrow> string \<Rightarrow> data \<Rightarrow> saldo option" where
  "saldo_sql tab t d =
     (case rev (sort_key (\<lambda>s. (data_referencia s, saldo_id s))
                 [s \<leftarrow> tab. tipo_saldo s = t \<and> data_referencia s \<le> d]) of
        [] \<Rightarrow> None
      | s # _ \<Rightarrow> Some s)"


section \<open>The two formula dispatches\<close>

definition aplicar_modelo_oficial :: "string \<Rightarrow> real \<Rightarrow> real \<Rightarrow> real \<Rightarrow> real" where
  "aplicar_modelo_oficial modelo_oficial saldo_inicial total_entradas total_saidas =
     (if modelo_oficial = modelo_mais then saldo_inicial + total_entradas + total_saidas
      else if modelo_oficial = modelo_menos then saldo_inicial + total_entradas - total_saidas
      else if modelo_oficial = modelo_parenteses then saldo_inicial + (total_entradas - total_saidas)
      else if modelo_oficial = modelo_entradas then saldo_inicial + total_entradas
      else if modelo_oficial = modelo_saidas then saldo_inicial + total_saidas
      else saldo_inicial + total_entradas + total_saidas)"

definition aplicar_modelo_formula :: "string \<Rightarrow> real \<Rightarrow> real \<Rightarrow> real \<Rightarrow> real" where
  "aplicar_modelo_formula modelo_formula saldo_inicial_sim total_entradas_periodo total_saidas_periodo =
     (if modelo_formula = modelo_menos then saldo_inicial_sim + total_entradas_periodo - total_saidas_periodo
      else if modelo_formula = modelo_mais then saldo_inicial_sim + total_entradas_periodo + total_saidas_periodo
      else if modelo_formula = modelo_parenteses then saldo_inicial_sim + (total_entradas_periodo - total_saidas_periodo)
      else if modelo_formula = modelo_entradas then saldo_inicial_sim + total_entradas_periodo
      else if modelo_formula = modelo_saidas then saldo_inicial_sim + total_saidas_periodo
      else saldo_inicial_sim + total_entradas_periodo - total_saidas_periodo)"

section \<open>Roll-up of a period\<close>

text \<open>\<open>soma_por_codigo\<close> (lines 1031-1032): one key for each pair of code and nature that
  has a row in the period.\<close>

definition soma_por_codigo :: "mov list \<Rightarrow> string \<times> string \<rightharpoonup> real" where
  "soma_por_codigo df_periodo =
     (\<lambda>(c, n). let g = filter (\<lambda>(l, p). codigo p = c \<and> natureza p = n) df_periodo
               in if g = [] then None else Some (soma_valor g))"

text \<open>The totals of a list of roots, in order, through one cache: what rendering the
  roots computes (lines 1136-1151, \<open>render_no\<close> calling \<open>total_no\<close>).\<close>

definition totais_raizes ::
  "conta list \<Rightarrow> (string \<times> string \<rightharpoonup> real) \<Rightarrow> cache \<Rightarrow> string list \<Rightarrow> string
     \<Rightarrow> (string \<times> real) list \<times> cache" where
  "totais_raizes df_plano soma cache0 roots nt =
     fold (\<lambda>r (acc, cache). let (t, cache') = total_no df_plano soma cache r nt
                            in (acc @ [(r, t)], cache'))
          roots ([], cache0)"

section \<open>The page DFC - Caixa (\<open>app.py\<close>, lines 881-1158)\<close>

datatype aviso =
    Nenhum_lancamento_encontrado
  | Nenhum_lancamento_apos_filtros
  | Sem_movimentacao_no_periodo
  | Nenhum_lancamento_para_simular
  | Nenhum_lancamento_conciliado

record relatorio =
  saldo_inicial :: real
  saldo_inicial_lancado :: "real option"
  data_saldo_ini :: "data option"
  saldo_inicial_calc :: real
  total_entradas :: real
  total_saidas_raw :: real
  total_saidas :: real
  saldo_final_calc :: real
  saldo_final_lancado :: "real option"
  geracao_caixa :: real
  recebimentos :: "(string \<times> real) list"
  pagamentos :: "(string \<times> real) list"

text \<open>The page with its settings given; \<open>st.stop()\<close> after a warning is \<open>Inl\<close>. The
  check that the table \<open>plano_contas\<close> exists (lines 884-886) is left out: the table is
  created when the application starts (lines 223-238). \<open>recebimentos\<close> and
  \<open>pagamentos\<close> are the roots of each nature with the totals the tree shows for them.\<close>

definition dfc_calculo :: "config \<Rightarrow> banco \<Rightarrow> data \<Rightarrow> data \<Rightarrow> aviso + relatorio" where
  "dfc_calculo cfg db data_inicio data_fim =
     (let df_mov0 = df_mov_sql db in
      if df_mov0 = [] then Inl Nenhum_lancamento_encontrado
      else
        let df_mov = filtrar_mov (considerar_somente_conciliados cfg) df_mov0 in
        if df_mov = [] then Inl Nenhum_lancamento_apos_filtros
        else
          let df_periodo = no_periodo df_mov data_inicio data_fim in
          if df_periodo = [] then Inl Sem_movimentacao_no_periodo
          else
            let df_saldo_ini = (if usar_saldo_lancado cfg
                                then saldo_sql (saldos db) ''Inicial'' data_inicio else None);
                lancado = map_option valor_saldo df_saldo_ini;
                calc = (if usar_saldo_calculado cfg
                        then sum_list (map valor_ajustado (antes_de df_mov data_inicio)) else 0);
                si1 = (if usar_saldo_lancado cfg
                       then (case lancado of None \<Rightarrow> 0 | Some v \<Rightarrow> 0 + v) else 0);
                si = (if usar_saldo_calculado cfg then si1 + calc else si1);
                te = soma_valor (com_natureza df_periodo Entrada);
                ts_raw = soma_valor (com_natureza df_periodo Saida);
                ts = sinal_saidas (forcar_saida_negativa cfg) ts_raw;
                sf = aplicar_modelo_oficial (modelo cfg) si te ts;
                df_plano = plano_contas db;
                soma = soma_por_codigo df_periodo;
                (rec, cache1) = totais_raizes df_plano soma Map.empty (roots_entrada df_plano) Entrada;
                (pag, cache2) = totais_raizes df_plano soma cache1 (roots_saida df_plano) Saida
            in Inr \<lparr>saldo_inicial = si,
                    saldo_inicial_lancado = lancado,
                    data_saldo_ini = map_option data_referencia df_saldo_ini,
                    saldo_inicial_calc = calc,
                    total_entradas = te,
                    total_saidas_raw = ts_raw,
                    total_saidas = ts,
                    saldo_final_calc = sf,
                    saldo_final_lancado = map_option valor_saldo (saldo_sql (saldos db) ''Final'' data_fim),
                    geracao_caixa = sf - si,
                    recebimentos = rec,
                    pagamentos = pag\<rparr>)"

text \<open>The page reads its five settings from the table \<open>configuracoes\<close>.\<close>

definition dfc_caixa :: "banco \<Rightarrow> data \<Rightarrow> data \<Rightarrow> aviso + relatorio" where
  "dfc_caixa db data_inicio data_fim = dfc_calculo (config_oficial db) db data_inicio data_fim"

section \<open>The simulation of the page Auditoria DFC (\<open>app.py\<close>, lines 1228-1334)\<close>

record simulacao =
  saldo_inicial_sim :: real
  total_entradas_periodo :: real
  total_saidas_periodo :: real
  saldo_final_sim :: real

text \<open>The settings are the values of the widgets; \<open>linha\<close> is the answer of the database
  to the query of lines 1278-1287, read only when \<open>usar_saldo_lancado\<close> is set. The
  totals over all dates of lines 1264-1273 are computed and never used, and are left out.\<close>

definition auditoria_simulacao ::
  "config \<Rightarrow> banco \<Rightarrow> data \<Rightarrow> data \<Rightarrow> saldo option \<Rightarrow> aviso + simulacao" where
  "auditoria_simulacao cfg db data_sim_ini data_sim_fim linha =
     (let df_mov_sim0 = df_mov_sql db in
      if df_mov_sim0 = [] then Inl Nenhum_lancamento_para_simular
      else
        let df_mov_sim = filtrar_mov (considerar_somente_conciliados cfg) df_mov_sim0 in
        if df_mov_sim = [] then Inl Nenhum_lancamento_conciliado
        else
          let si0 = (if usar_saldo_lancado cfg
                     then (case linha of None \<Rightarrow> 0 | Some s \<Rightarrow> valor_saldo s) else 0);
              si = (if usar_saldo_calculado cfg
                    then si0 + sum_list (map valor_ajustado (antes_de df_mov_sim data_sim_ini))
                    else si0);
              df_periodo_sim = no_periodo df_mov_sim data_sim_ini data_sim_fim;
              te = soma_valor (com_natureza df_periodo_sim Entrada);
              ts = sinal_saidas (forcar_saida_negativa cfg)
                     (soma_valor (com_natureza df_periodo_sim Saida))
          in Inr \<lparr>saldo_inicial_sim = si,
                  total_entradas_periodo = te,
                  total_saidas_periodo = ts,
                  saldo_final_sim = aplicar_modelo_formula (modelo cfg) si te ts\<rparr>)"

section \<open>A small database: the scenario of the specification\<close>

definition cenario_db :: banco where
  "cenario_db =
     \<lparr>plano_contas = transformar_plano
        [(''Receitas'', Some ''1.00.00.00''), (''Vendas'', Some ''1.01.00.00''),
         (''Despesas'', Some ''2.00.00.00'')],
      lancamentos =
        [\<lparr>data_pagamento = Some 15, valor = 100, status = ''Recebido'',
          plano_conta_id = ''1.01.00.00''\<rparr>,
         \<lparr>data_pagamento = Some 16, valor = 40, status = ''Pago'',
          plano_conta_id = ''2.00.00.00''\<rparr>],
      saldos = [],
      configuracoes = Map.empty\<rparr>"

definition cenario_relatorio :: relatorio where
  "cenario_relatorio =
     \<lparr>saldo_inicial = 0, saldo_inicial_lancado = None, data_saldo_ini = None,
      saldo_inicial_calc = 0, total_entradas = 100, total_saidas_raw = 40,
      total_saidas = - 40, saldo_final_calc = 140, saldo_final_lancado = None,
      geracao_caixa = 140, recebimentos = [(''1.00.00.00'', 100)],
      pagamentos = [(''2.00.00.00'', 40)]\<rparr>"

section \<open>Claims about the formula dispatch and the cash generated\<close>


text \<open>
  Claim C9. Whatever the formula, the cash generated that the page DFC - Caixa reports is
  the closing balance it computed minus the opening balance: it is recomputed from those
  two values (line 1111).
\<close>

theorem geracao_caixa_recalculada:
  "dfc_calculo cfg db data_inicio data_fim = Inr r \<Longrightarrow>
   geracao_caixa r = saldo_final_calc r - saldo_inicial r"
  by (auto simp: dfc_calculo_def Let_def split: if_splits prod.splits)

theorem geracao_caixa_recalculada_witness:
  "dfc_calculo (config_oficial cenario_db) cenario_db 10 20 = Inr cenario_relatorio
   \<and> geracao_caixa cenario_relatorio
       = saldo_final_calc cenario_relatorio - saldo_inicial cenario_relatorio"
proof -
  have h: "dfc_calculo (config_oficial cenario_db) cenario_db 10 20 = Inr cenario_relatorio"
    by code_simp
  from geracao_caixa_recalculada [OF h] h show ?thesis by simp
qed

text \<open>What each dispatch does with an identifier that is none of the five.\<close>

lemma modelo_desconhecido_oficial:
  "m \<noteq> modelo_mais \<Longrightarrow> m \<noteq> modelo_menos \<Longrightarrow> m \<noteq> modelo_parenteses \<Longrightarrow>
   m \<noteq> modelo_entradas \<Longrightarrow> m \<noteq> modelo_saidas \<Longrightarrow>
   aplicar_modelo_oficial m si te ts = si + te + ts"
  by (simp add: aplicar_modelo_oficial_def)

lemma modelo_desconhecido_formula:
  "m \<noteq> modelo_mais \<Longrightarrow> m \<noteq> modelo_menos \<Longrightarrow> m \<noteq> modelo_parenteses \<Longrightarrow>
   m \<noteq> modelo_entradas \<Longrightarrow> m \<noteq> modelo_saidas \<Longrightarrow>
   aplicar_modelo_formula m si te ts = si + te - ts"
  by (simp add: aplicar_modelo_formula_def)


section \<open>Claims about the inferred hierarchy\<close>

text \<open>The candidates and the parent of claim C5, written from the words of the
  specification, to be compared with \<open>codigo_pais\<close> and \<open>pai_existente\<close>:
  \<open>spec_candidatos\<close> is the list a.b.c.00, a.b.00.00, a.00.00.00 and \<open>spec_pai\<close> its
  first member that is an account. \<open>codigo_preenchido\<close> is the padded code a.b.c.d, and
  \<open>plano_de\<close> the chart imported from a list of codes.\<close>

definition spec_candidatos :: "string \<Rightarrow> string list" where
  "spec_candidatos cod =
     (let p = codigo_blocos cod; a = p ! 0; b = p ! 1; c = p ! 2
      in [a @ ''.'' @ b @ ''.'' @ c @ ''.00'', a @ ''.'' @ b @ ''.00.00'', a @ ''.00.00.00''])"

definition spec_pai :: "conta list \<Rightarrow> string \<Rightarrow> string option" where
  "spec_pai df_plano cod = find (\<lambda>p. p \<in> set (chaves df_plano)) (spec_candidatos cod)"

definition codigo_preenchido :: "string \<Rightarrow> string" where
  "codigo_preenchido cod =
     (let p = codigo_blocos cod in p ! 0 @ ''.'' @ p ! 1 @ ''.'' @ p ! 2 @ ''.'' @ p ! 3)"

definition plano_de :: "string list \<Rightarrow> conta list" where
  "plano_de cods = transformar_plano (map (\<lambda>c. ([], Some c)) cods)"

lemma ponto_inj:
  "CHR ''.'' \<notin> set x \<Longrightarrow> CHR ''.'' \<notin> set y \<Longrightarrow>
   (x @ CHR ''.'' # r = y @ CHR ''.'' # s) = (x = y \<and> r = s)"
proof (induction x arbitrary: y)
  case Nil
  then show ?case by (cases y) auto
next
  case (Cons c x)
  then show ?case by (cases y) auto
qed

lemma pais_spec:
  "codigo_pais cod = rev (remdups (rev [p \<leftarrow> spec_candidatos cod. p \<noteq> codigo_preenchido cod]))"
proof -
  obtain a b c d where bl: "codigo_blocos cod = [a, b, c, d]"
    using blocos_4 [of cod] by blast
  have nd: "CHR ''.'' \<notin> set a" "CHR ''.'' \<notin> set b" "CHR ''.'' \<notin> set c" "CHR ''.'' \<notin> set d"
    using blocos_no_dot [of _ cod] bl by auto
  have z: "CHR ''.'' \<notin> set ''00''" by simp
  define c1 where "c1 = a @ ''.'' @ b @ ''.'' @ c @ ''.00''"
  define c2 where "c2 = a @ ''.'' @ b @ ''.00.00''"
  define c3 where "c3 = a @ ''.00.00.00''"
  define own where "own = a @ ''.'' @ b @ ''.'' @ c @ ''.'' @ d"
  have q1: "(c1 = own) = (d = ''00'')"
    by (auto simp: c1_def own_def)
  have q2: "(c2 = own) = (c = ''00'' \<and> d = ''00'')"
    using ponto_inj [OF z nd(3), of "''00''" d] by (auto simp: c2_def own_def)
  have q3: "(c3 = own) = (b = ''00'' \<and> c = ''00'' \<and> d = ''00'')"
    using ponto_inj [OF z nd(2), of "''00.00''" "c @ CHR ''.'' # d"] ponto_inj [OF z nd(3), of "''00''" d]
    by (auto simp: c3_def own_def)
  have q4: "(c1 = c2) = (c = ''00'')"
    using ponto_inj [OF nd(3) z, of "''00''" "''00''"] by (auto simp: c1_def c2_def)
  have q5: "(c1 = c3) = (b = ''00'' \<and> c = ''00'')"
    using ponto_inj [OF nd(2) z, of "c @ ''.00''" "''00.00''"] ponto_inj [OF nd(3) z, of "''00''" "''00''"]
    by (auto simp: c1_def c3_def)
  have q6: "(c2 = c3) = (b = ''00'')"
    using ponto_inj [OF nd(2) z, of "''00.00''" "''00.00''"] by (auto simp: c2_def c3_def)
  have q4': "(c2 = c1) = (c = ''00'')" using q4 by auto
  have q5': "(c3 = c1) = (b = ''00'' \<and> c = ''00'')" using q5 by auto
  have q6': "(c3 = c2) = (b = ''00'')" using q6 by auto
  have lhs: "codigo_pais cod = (if d \<noteq> ''00'' then [c1] else []) @ (if c \<noteq> ''00'' then [c2] else [])
      @ (if b \<noteq> ''00'' then [c3] else [])"
    by (simp add: codigo_pais_def bl Let_def c1_def c2_def c3_def)
  have rhs: "[p \<leftarrow> spec_candidatos cod. p \<noteq> codigo_preenchido cod] = [p \<leftarrow> [c1, c2, c3]. p \<noteq> own]"
    by (simp add: spec_candidatos_def codigo_preenchido_def bl Let_def c1_def c2_def c3_def own_def)
  show ?thesis
    unfolding lhs rhs
    by (cases "d = ''00''"; cases "c = ''00''"; cases "b = ''00''")
       (simp_all add: q1 q2 q3 q4 q5 q6 q4' q5' q6')
qed

lemma chaves_plano_de: "chaves (plano_de cods) = rev (remdups (rev (map strip cods)))"
proof -
  have "map (\<lambda>row. strip (codigo row)) (plano_de cods) = map strip cods"
    by (induction cods) (simp_all add: plano_de_def transformar_plano_def Let_def strip_strip)
  then show ?thesis by (simp add: chaves_def)
qed

text \<open>
  Claim C5, as stated, fails where a block is already \<open>00\<close>: the code 1.02.03.00 has
  two candidates, not three, and the first of the claim's three is the code itself, which
  the claim would make its own parent; and 1.00.00.00, alone in a chart, is a root
  although the claim's candidates for it all exist.
\<close>

theorem candidatos_e_pai_counterexample:
  "codigo_pais ''1.02.03.00'' = [''1.02.00.00'', ''1.00.00.00'']
   \<and> spec_candidatos ''1.02.03.00'' = [''1.02.03.00'', ''1.02.00.00'', ''1.00.00.00'']
   \<and> pai_existente (plano_de [''1.00.00.00'', ''1.02.03.00'']) ''1.02.03.00'' = Some ''1.00.00.00''
   \<and> spec_pai (plano_de [''1.00.00.00'', ''1.02.03.00'']) ''1.02.03.00'' = Some ''1.02.03.00''
   \<and> tem_pai (plano_de [''1.00.00.00'']) ''1.00.00.00'' = False
   \<and> spec_pai (plano_de [''1.00.00.00'']) ''1.00.00.00'' = Some ''1.00.00.00''"
  by code_simp

text \<open>
  Claim C5, amended. The candidate ancestors of a code with padded blocks a.b.c.d are
  a.b.c.00, a.b.00.00, a.00.00.00 in that order, leaving out repetitions and the padded
  code itself. The inferred parent of an account is the first candidate that is an account
  (missing levels are skipped), and an account is a root of its nature exactly when none
  of its candidates is an account.
\<close>

theorem candidatos_e_pai:
  "codigo_pais cod = rev (remdups (rev [p \<leftarrow> spec_candidatos cod. p \<noteq> codigo_preenchido cod]))
   \<and> (cod \<in> set (filhos_get df_plano p)
        \<longleftrightarrow> cod \<in> set (chaves df_plano)
            \<and> find (\<lambda>q. q \<in> set (chaves df_plano)) (codigo_pais cod) = Some p)
   \<and> (cod \<in> set (roots_de df_plano nt)
        \<longleftrightarrow> cod \<in> set (chaves df_plano) \<and> plano_nat df_plano cod = Some nt
            \<and> \<not> (\<exists>q \<in> set (codigo_pais cod). q \<in> set (chaves df_plano)))"
proof (intro conjI)
  show "codigo_pais cod = rev (remdups (rev [p \<leftarrow> spec_candidatos cod. p \<noteq> codigo_preenchido cod]))"
    by (rule pais_spec)
  have pe: "pai_existente df_plano cod = find (\<lambda>q. q \<in> set (chaves df_plano)) (codigo_pais cod)"
    by (simp add: pai_existente_def plano_desc_chaves del: not_None_eq)
  show "cod \<in> set (filhos_get df_plano p)
        \<longleftrightarrow> cod \<in> set (chaves df_plano)
            \<and> find (\<lambda>q. q \<in> set (chaves df_plano)) (codigo_pais cod) = Some p"
    by (simp add: set_filhos_get pe)
  have tp: "tem_pai df_plano cod = (\<exists>q \<in> set (codigo_pais cod). q \<in> set (chaves df_plano))"
    by (simp add: tem_pai_def list_ex_iff plano_desc_chaves del: not_None_eq)
  show "cod \<in> set (roots_de df_plano nt)
        \<longleftrightarrow> cod \<in> set (chaves df_plano) \<and> plano_nat df_plano cod = Some nt
            \<and> \<not> (\<exists>q \<in> set (codigo_pais cod). q \<in> set (chaves df_plano))"
    by (auto simp: roots_de_def tp)
qed

theorem candidatos_e_pai_witness:
  "codigo_pais ''1.02.03.04'' = [''1.02.03.00'', ''1.02.00.00'', ''1.00.00.00'']
   \<and> ''1.02.03.04'' \<in> set (filhos_get (plano_de [''1.00.00.00'', ''1.02.03.04'']) ''1.00.00.00'')
   \<and> ''1.00.00.00'' \<in> set (roots_de (plano_de [''1.00.00.00'', ''1.02.03.04'']) Entrada)
   \<and> ''1.02.03.04'' \<notin> set (roots_de (plano_de [''1.00.00.00'', ''1.02.03.04'']) Entrada)"
proof -
  have k: "chaves (plano_de [''1.00.00.00'', ''1.02.03.04'']) = [''1.00.00.00'', ''1.02.03.04'']"
    by code_simp
  have n: "plano_nat (plano_de [''1.00.00.00'', ''1.02.03.04'']) ''1.00.00.00'' = Some Entrada"
    by code_simp
  have c: "rev (remdups (rev [p \<leftarrow> spec_candidatos ''1.02.03.04''. p \<noteq> codigo_preenchido ''1.02.03.04'']))
      = [''1.02.03.00'', ''1.02.00.00'', ''1.00.00.00'']" by code_simp
  have c0: "rev (remdups (rev [p \<leftarrow> spec_candidatos ''1.00.00.00''. p \<noteq> codigo_preenchido ''1.00.00.00''])) = []"
    by code_simp
  note t1 = candidatos_e_pai [of "''1.02.03.04''" "plano_de [''1.00.00.00'', ''1.02.03.04'']" "''1.00.00.00''" Entrada]
  note t0 = candidatos_e_pai [of "''1.00.00.00''" "plano_de [''1.00.00.00'', ''1.02.03.04'']" "''1.00.00.00''" Entrada]
  have p1: "codigo_pais ''1.02.03.04'' = [''1.02.03.00'', ''1.02.00.00'', ''1.00.00.00'']"
    using t1 c by simp
  have p0: "codigo_pais ''1.00.00.00'' = []" using t0 c0 by simp
  show ?thesis
    using t1 t0 by (simp add: k n p1 p0)
qed

text \<open>
  Claim C7. For every chart, the inferred parent relation is a forest: a code is the child
  of at most one parent, never of itself, its parent has a strictly lower level, and no
  chain of parent links is a cycle.
\<close>

theorem hierarquia_floresta:
  "(cod \<in> set (filhos_get df_plano p) \<and> cod \<in> set (filhos_get df_plano q) \<longrightarrow> p = q)
   \<and> cod \<notin> set (filhos_get df_plano cod)
   \<and> (cod \<in> set (filhos_get df_plano p) \<longrightarrow> nivel p < nivel cod)
   \<and> acyclic {(c, p). c \<in> set (filhos_get df_plano p)}"
proof (intro conjI)
  show "cod \<in> set (filhos_get df_plano p) \<and> cod \<in> set (filhos_get df_plano q) \<longrightarrow> p = q"
    by (auto simp: set_filhos_get)
  show "cod \<notin> set (filhos_get df_plano cod)"
    using nivel_filhos [of cod df_plano cod] by auto
  show "cod \<in> set (filhos_get df_plano p) \<longrightarrow> nivel p < nivel cod"
    using nivel_filhos by blast
  have "{(c, p). c \<in> set (filhos_get df_plano p)}\<inverse> \<subseteq> measure nivel"
    using nivel_filhos by auto
  then have "wf ({(c, p). c \<in> set (filhos_get df_plano p)}\<inverse>)"
    by (rule wf_subset [OF wf_measure])
  then have "acyclic ({(c, p). c \<in> set (filhos_get df_plano p)}\<inverse>)"
    by (rule wf_acyclic)
  then show "acyclic {(c, p). c \<in> set (filhos_get df_plano p)}"
    by (simp only: acyclic_converse)
qed

theorem hierarquia_floresta_witness:
  "''1.01.00.00'' \<in> set (filhos_get (plano_contas cenario_db) ''1.00.00.00'')
   \<and> nivel ''1.00.00.00'' < nivel ''1.01.00.00''
   \<and> ''1.01.00.00'' \<notin> set (filhos_get (plano_contas cenario_db) ''1.01.00.00'')
   \<and> acyclic {(c, p). c \<in> set (filhos_get (plano_contas cenario_db) p)}"
proof -
  have h: "''1.01.00.00'' \<in> set (filhos_get (plano_contas cenario_db) ''1.00.00.00'')"
    by code_simp
  from hierarquia_floresta [of "''1.01.00.00''" "plano_contas cenario_db" "''1.00.00.00''" "''1.00.00.00''"] h
  show ?thesis by simp
qed





text \<open>Whatever is written after the fourth segment of a stripped four-segment code leaves
  its first four segments as they are.\<close>

lemma strip_resto:
  assumes s: "strip p = p" and ne: "p \<noteq> []"
  shows "strip (p @ CHR ''.'' # resto) = p @ CHR ''.'' # rev (dropWhile isspace (rev resto))"
proof -
  have h: "\<not> isspace (hd p)" using strip_hd [of p] s ne by simp
  have a: "dropWhile isspace (p @ CHR ''.'' # resto) = p @ CHR ''.'' # resto"
    using ne h by (cases p) auto
  have b: "dropWhile isspace (rev resto @ CHR ''.'' # rev p)
      = dropWhile isspace (rev resto) @ CHR ''.'' # rev p"
    using not_isspace_dot by (simp add: dropWhile_append)
  show ?thesis by (simp add: strip_def a b)
qed

lemma resto_descartado:
  assumes s: "strip p = p" and l: "length (split_dot p) = 4"
  shows "4 < length (split_dot (normalizar_codigo (p @ ''.'' @ resto)))
    \<and> take 4 (split_dot (normalizar_codigo p))
        = take 4 (split_dot (normalizar_codigo (p @ ''.'' @ resto)))"
proof -
  have ne: "p \<noteq> []" using l by (cases p) auto
  let ?r = "rev (dropWhile isspace (rev resto))"
  have "split_dot (normalizar_codigo (p @ ''.'' @ resto)) = split_dot p @ split_dot ?r"
    using strip_resto [OF s ne, of resto] by (simp add: normalizar_codigo_def split_dot_append)
  moreover have "split_dot ?r \<noteq> []" by (rule split_dot_not_Nil)
  ultimately show ?thesis using l s by (simp add: normalizar_codigo_def)
qed



section \<open>Claims about the two views\<close>

text \<open>Three more databases: the scenario with no entry settled, the scenario with a recorded
  opening balance, and below the predicate that no two snapshots of one type share a
  reference date with different amounts (the form that saves a balance deletes the row of
  the same date and type first, lines 351-359). \<open>modelos\<close> are the five formulas.\<close>

definition cenario_pendente :: banco where
  "cenario_pendente =
     cenario_db\<lparr>lancamentos :=
        [\<lparr>data_pagamento = Some 15, valor = 100, status = ''A receber'',
          plano_conta_id = ''1.01.00.00''\<rparr>,
         \<lparr>data_pagamento = Some 16, valor = 40, status = ''A pagar'',
          plano_conta_id = ''2.00.00.00''\<rparr>]\<rparr>"

definition saldo_500 :: saldo where
  "saldo_500 = \<lparr>saldo_id = 1, data_referencia = 5, tipo_saldo = ''Inicial'', valor_saldo = 500\<rparr>"

definition cenario_com_saldo :: banco where
  "cenario_com_saldo = cenario_db\<lparr>saldos := [saldo_500]\<rparr>"



text \<open>
  Claim C3, as stated, fails: when the reconciliation filter leaves nothing, no report is
  returned. The page DFC - Caixa warns and stops (lines 938-940) and the simulation warns
  and computes nothing (lines 1260-1261).
\<close>

theorem sem_admissiveis_counterexample:
  "dfc_caixa cenario_pendente 10 20 = Inl Nenhum_lancamento_apos_filtros
   \<and> auditoria_simulacao (config_oficial cenario_pendente) cenario_pendente 10 20 None
       = Inl Nenhum_lancamento_conciliado"
  by code_simp

lemma filtrar_mov_Nil: "filtrar_mov b [] = []"
  by (simp add: filtrar_mov_def dropna_def conciliados_def)

lemma sinal_saidas_0: "sinal_saidas b 0 = 0"
  by (simp add: sinal_saidas_def)

lemma aplicar_modelo_formula_0: "aplicar_modelo_formula m si 0 0 = si"
  by (simp add: aplicar_modelo_formula_def)

text \<open>
  Claim C3, amended. When no admissible entry is left (no entry at all, or none after the
  reconciliation filter), neither view returns a report: each gives a warning. When
  admissible entries exist but none falls in the date range, the page DFC - Caixa warns
  and stops, and the simulation returns a result whose period totals are zero and whose
  closing balance equals its opening balance (which need not be zero).
\<close>

theorem sem_admissiveis:
  "(filtrar_mov (considerar_somente_conciliados cfg) (df_mov_sql db) = [] \<longrightarrow>
      dfc_calculo cfg db d1 d2
        = Inl (if df_mov_sql db = [] then Nenhum_lancamento_encontrado
               else Nenhum_lancamento_apos_filtros)
      \<and> auditoria_simulacao cfg db d1 d2 linha
        = Inl (if df_mov_sql db = [] then Nenhum_lancamento_para_simular
               else Nenhum_lancamento_conciliado))
   \<and> (filtrar_mov (considerar_somente_conciliados cfg) (df_mov_sql db) \<noteq> []
       \<and> no_periodo (filtrar_mov (considerar_somente_conciliados cfg) (df_mov_sql db)) d1 d2 = [] \<longrightarrow>
      dfc_calculo cfg db d1 d2 = Inl Sem_movimentacao_no_periodo
      \<and> (\<exists>s. auditoria_simulacao cfg db d1 d2 linha = Inr s
             \<and> total_entradas_periodo s = 0 \<and> total_saidas_periodo s = 0
             \<and> saldo_final_sim s = saldo_inicial_sim s))"
proof (intro conjI impI)
  assume e: "filtrar_mov (considerar_somente_conciliados cfg) (df_mov_sql db) = []"
  show "dfc_calculo cfg db d1 d2
        = Inl (if df_mov_sql db = [] then Nenhum_lancamento_encontrado
               else Nenhum_lancamento_apos_filtros)"
    using e by (simp add: dfc_calculo_def Let_def)
  show "auditoria_simulacao cfg db d1 d2 linha
        = Inl (if df_mov_sql db = [] then Nenhum_lancamento_para_simular
               else Nenhum_lancamento_conciliado)"
    using e by (simp add: auditoria_simulacao_def Let_def)
next
  assume a: "filtrar_mov (considerar_somente_conciliados cfg) (df_mov_sql db) \<noteq> []
       \<and> no_periodo (filtrar_mov (considerar_somente_conciliados cfg) (df_mov_sql db)) d1 d2 = []"
  then have ne: "df_mov_sql db \<noteq> []" using filtrar_mov_Nil by metis
  show "dfc_calculo cfg db d1 d2 = Inl Sem_movimentacao_no_periodo"
    using a ne by (simp add: dfc_calculo_def Let_def)
  show "\<exists>s. auditoria_simulacao cfg db d1 d2 linha = Inr s
             \<and> total_entradas_periodo s = 0 \<and> total_saidas_periodo s = 0
             \<and> saldo_final_sim s = saldo_inicial_sim s"
    using a ne
    by (simp add: auditoria_simulacao_def Let_def com_natureza_def soma_valor_def
        sinal_saidas_0 aplicar_modelo_formula_0)
qed

theorem sem_admissiveis_witness:
  "dfc_calculo (config_oficial cenario_pendente) cenario_pendente 10 20 = Inl Nenhum_lancamento_apos_filtros
   \<and> auditoria_simulacao (config_oficial cenario_pendente) cenario_pendente 10 20 None
       = Inl Nenhum_lancamento_conciliado
   \<and> dfc_calculo (config_oficial cenario_com_saldo) cenario_com_saldo 100 200 = Inl Sem_movimentacao_no_periodo
   \<and> (\<exists>s. auditoria_simulacao (config_oficial cenario_com_saldo) cenario_com_saldo 100 200 (Some saldo_500) = Inr s
         \<and> total_entradas_periodo s = 0 \<and> total_saidas_periodo s = 0
         \<and> saldo_final_sim s = saldo_inicial_sim s)"
proof -
  let ?c1 = "config_oficial cenario_pendente" and ?c2 = "config_oficial cenario_com_saldo"
  have a1: "filtrar_mov (considerar_somente_conciliados ?c1) (df_mov_sql cenario_pendente) = []"
    by code_simp
  have a2: "df_mov_sql cenario_pendente \<noteq> []" by code_simp
  have b1: "filtrar_mov (considerar_somente_conciliados ?c2) (df_mov_sql cenario_com_saldo) \<noteq> []"
    by code_simp
  have b2: "no_periodo (filtrar_mov (considerar_somente_conciliados ?c2) (df_mov_sql cenario_com_saldo)) 100 200 = []"
    by code_simp
  from sem_admissiveis [of ?c1 cenario_pendente 10 20 None]
       sem_admissiveis [of ?c2 cenario_com_saldo 100 200 "Some saldo_500"] a1 a2 b1 b2
  show ?thesis by simp
qed


text \<open>The row the query of the page returns is an eligible row of greatest date and, among
  those, of greatest id.\<close>

lemma saldo_sql_None:
  "(saldo_sql tab t d = None) = ([s \<leftarrow> tab. tipo_saldo s = t \<and> data_referencia s \<le> d] = [])"
proof -
  let ?xs = "[s \<leftarrow> tab. tipo_saldo s = t \<and> data_referencia s \<le> d]"
  let ?ys = "sort_key (\<lambda>s. (data_referencia s, saldo_id s)) ?xs"
  have "length ?ys = length ?xs" by (rule length_sort)
  then have "(rev ?ys = []) = (?xs = [])"
    by (cases ?xs) auto
  then show ?thesis
    unfolding saldo_sql_def by (cases "rev ?ys") simp_all
qed

lemma sorted_le_last: "sorted xs \<Longrightarrow> x \<in> set xs \<Longrightarrow> x \<le> last xs"
  by (induction xs) auto

lemma saldo_sql_Some:
  assumes "saldo_sql tab t d = Some s"
  shows "s \<in> set tab \<and> tipo_saldo s = t \<and> data_referencia s \<le> d
    \<and> (\<forall>s' \<in> set tab. tipo_saldo s' = t \<and> data_referencia s' \<le> d \<longrightarrow>
          (data_referencia s', saldo_id s') \<le> (data_referencia s, saldo_id s))"
proof -
  let ?k = "\<lambda>s. (data_referencia s, saldo_id s)"
  let ?xs = "[s \<leftarrow> tab. tipo_saldo s = t \<and> data_referencia s \<le> d]"
  let ?ys = "sort_key ?k ?xs"
  from assms have r: "rev ?ys \<noteq> []"
    unfolding saldo_sql_def by (cases "rev ?ys") simp_all
  from assms have h: "hd (rev ?ys) = s"
    unfolding saldo_sql_def by (cases "rev ?ys") simp_all
  have ne: "?ys \<noteq> []" using r by simp
  have l: "last ?ys = s" using h ne by (simp add: hd_rev)
  have m: "s \<in> set ?ys" using l ne last_in_set by metis
  then have m': "s \<in> set ?xs" by simp
  have srt: "sorted (map ?k ?ys)" by (rule sorted_sort_key)
  have mx: "?k s' \<le> ?k s" if "s' \<in> set ?xs" for s'
  proof -
    have "s' \<in> set ?ys" using that by simp
    then have "?k s' \<in> ?k ` set ?ys" by (rule imageI)
    then have "?k s' \<in> set (map ?k ?ys)" by (simp only: set_map)
    then have "?k s' \<le> last (map ?k ?ys)" by (rule sorted_le_last [OF srt])
    then show ?thesis using l ne by (simp add: last_map)
  qed
  show ?thesis using m' mx by auto
qed










section \<open>Claim about the opening balance\<close>

text \<open>The opening balance of claim C4, written from the words of the specification:
  \<open>spec_snapshot_inicial\<close> goes through the snapshots and keeps the one of type Inicial,
  at or before the date, of latest date and, on equal dates, of greatest id;
  \<open>spec_saldo_inicial\<close> adds the two contributions.\<close>

definition spec_melhor :: "data \<Rightarrow> saldo \<Rightarrow> saldo option \<Rightarrow> saldo option" where
  "spec_melhor d s best =
     (if tipo_saldo s = ''Inicial'' \<and> data_referencia s \<le> d
         \<and> (case best of
               None \<Rightarrow> True
             | Some b \<Rightarrow> data_referencia b < data_referencia s
                         \<or> (data_referencia b = data_referencia s \<and> saldo_id b < saldo_id s))
      then Some s else best)"

definition spec_snapshot_inicial :: "saldo list \<Rightarrow> data \<Rightarrow> saldo option" where
  "spec_snapshot_inicial tab d = fold (spec_melhor d) tab None"

definition spec_saldo_inicial :: "bool \<Rightarrow> bool \<Rightarrow> saldo list \<Rightarrow> mov list \<Rightarrow> data \<Rightarrow> real" where
  "spec_saldo_inicial use_recorded_opening use_computed_opening tab admissiveis d =
     (if use_recorded_opening
      then (case spec_snapshot_inicial tab d of None \<Rightarrow> 0 | Some s \<Rightarrow> valor_saldo s) else 0)
     + (if use_computed_opening
        then sum_list (map (\<lambda>(l, p). if natureza p = Entrada then valor l
                                      else if natureza p = Saida then - valor l else 0)
                           (antes_de admissiveis d))
        else 0)"

definition naturezas_validas :: "conta list \<Rightarrow> bool" where
  "naturezas_validas plano = list_all (\<lambda>p. natureza p = Entrada \<or> natureza p = Saida) plano"




abbreviation chave_saldo :: "saldo \<Rightarrow> data \<times> nat" where
  "chave_saldo s \<equiv> (data_referencia s, saldo_id s)"

abbreviation elegivel :: "data \<Rightarrow> saldo \<Rightarrow> bool" where
  "elegivel d s \<equiv> tipo_saldo s = ''Inicial'' \<and> data_referencia s \<le> d"

lemma melhor_None: "(spec_melhor d x b0 = None) = (b0 = None \<and> \<not> elegivel d x)"
  by (auto simp: spec_melhor_def split: option.splits)

lemma melhor_Some:
  "spec_melhor d x b0 = Some y \<Longrightarrow> (y = x \<and> elegivel d x) \<or> b0 = Some y"
  by (auto simp: spec_melhor_def split: if_splits)

lemma melhor_mono:
  "spec_melhor d x (Some b) = Some y \<Longrightarrow> chave_saldo b \<le> chave_saldo y"
  by (auto simp: spec_melhor_def less_eq_prod_def split: if_splits)

lemma melhor_elegivel:
  "elegivel d x \<Longrightarrow> \<exists>y. spec_melhor d x b0 = Some y \<and> chave_saldo x \<le> chave_saldo y"
  by (cases b0) (auto simp: spec_melhor_def less_eq_prod_def)

lemma fold_melhor_mono:
  "fold (spec_melhor d) xs (Some b) = Some m \<Longrightarrow> chave_saldo b \<le> chave_saldo m"
proof (induction xs arbitrary: b)
  case Nil
  then show ?case by simp
next
  case (Cons x xs)
  obtain y where y: "spec_melhor d x (Some b) = Some y"
    using melhor_None [of d x "Some b"] by (cases "spec_melhor d x (Some b)") auto
  have "chave_saldo b \<le> chave_saldo y" using y by (rule melhor_mono)
  moreover have "chave_saldo y \<le> chave_saldo m" using Cons.prems y Cons.IH [of y] by simp
  ultimately show ?case by (rule order_trans)
qed

lemma fold_melhor_None:
  "(fold (spec_melhor d) xs b0 = None) = (b0 = None \<and> (\<forall>x \<in> set xs. \<not> elegivel d x))"
proof (induction xs arbitrary: b0)
  case Nil
  show ?case by simp
next
  case (Cons x xs)
  show ?case using Cons.IH [of "spec_melhor d x b0"] melhor_None [of d x b0] by auto
qed

lemma fold_melhor_Some:
  "fold (spec_melhor d) xs b0 = Some m \<Longrightarrow> (m \<in> set xs \<and> elegivel d m) \<or> b0 = Some m"
proof (induction xs arbitrary: b0)
  case Nil
  then show ?case by simp
next
  case (Cons x xs)
  from Cons.prems have "fold (spec_melhor d) xs (spec_melhor d x b0) = Some m" by simp
  from Cons.IH [OF this] show ?case using melhor_Some [of d x b0 m] by auto
qed

lemma fold_melhor_max:
  "fold (spec_melhor d) xs b0 = Some m \<Longrightarrow> x \<in> set xs \<Longrightarrow> elegivel d x \<Longrightarrow>
   chave_saldo x \<le> chave_saldo m"
proof (induction xs arbitrary: b0)
  case Nil
  then show ?case by simp
next
  case (Cons a xs)
  from Cons.prems(1) have f: "fold (spec_melhor d) xs (spec_melhor d a b0) = Some m" by simp
  show ?case
  proof (cases "x = a")
    case True
    obtain y where y: "spec_melhor d a b0 = Some y" "chave_saldo a \<le> chave_saldo y"
      using melhor_elegivel Cons.prems(3) True by blast
    have "chave_saldo y \<le> chave_saldo m" using f y(1) fold_melhor_mono [of d xs y m] by simp
    with y(2) True show ?thesis by (metis order_trans)
  next
    case False
    with Cons.prems(2) have "x \<in> set xs" by simp
    from Cons.IH [OF f this Cons.prems(3)] show ?thesis .
  qed
qed

lemma saldo_sql_spec:
  assumes "distinct (map saldo_id tab)"
  shows "saldo_sql tab ''Inicial'' d = spec_snapshot_inicial tab d"
proof (cases "spec_snapshot_inicial tab d")
  case None
  then have "\<forall>x \<in> set tab. \<not> elegivel d x"
    by (simp add: spec_snapshot_inicial_def fold_melhor_None)
  then have "[s \<leftarrow> tab. tipo_saldo s = ''Inicial'' \<and> data_referencia s \<le> d] = []"
    by (simp add: filter_empty_conv)
  then have "saldo_sql tab ''Inicial'' d = None" by (simp only: saldo_sql_None)
  with None show ?thesis by simp
next
  case (Some m)
  then have f: "fold (spec_melhor d) tab None = Some m" by (simp add: spec_snapshot_inicial_def)
  from fold_melhor_Some [OF f] have m: "m \<in> set tab" "elegivel d m" by auto
  then have "[s \<leftarrow> tab. tipo_saldo s = ''Inicial'' \<and> data_referencia s \<le> d] \<noteq> []"
    by (auto simp: filter_empty_conv)
  then have "saldo_sql tab ''Inicial'' d \<noteq> None" by (simp add: saldo_sql_None)
  then obtain s where s: "saldo_sql tab ''Inicial'' d = Some s" by auto
  note p = saldo_sql_Some [OF s]
  have "chave_saldo m \<le> chave_saldo s" using p m by blast
  moreover have "chave_saldo s \<le> chave_saldo m" using fold_melhor_max [OF f, of s] p by blast
  ultimately have "chave_saldo s = chave_saldo m" by (rule order_antisym [rotated])
  then have "saldo_id s = saldo_id m" by simp
  moreover have "inj_on saldo_id (set tab)" using assms by (simp add: distinct_map)
  ultimately have "s = m" using p m by (auto dest: inj_onD)
  with s Some show ?thesis by simp
qed

lemma df_mov_sql_plano: "(l, p) \<in> set (df_mov_sql db) \<Longrightarrow> p \<in> set (plano_contas db)"
  by (auto simp: df_mov_sql_def)

lemma filtrar_mov_subset: "set (filtrar_mov b df) \<subseteq> set df"
  by (auto simp: filtrar_mov_def dropna_def conciliados_def Let_def)

lemma antes_de_subset: "set (antes_de df d) \<subseteq> set df"
  by (auto simp: antes_de_def)

text \<open>On the page DFC - Caixa the opening balance is the one of claim C4, for every
  database whose snapshot ids are distinct (the column is the primary key) and whose
  accounts have one of the two natures.\<close>

lemma saldo_inicial_dfc_spec:
  assumes d: "dfc_calculo cfg db d1 d2 = Inr r"
    and i: "distinct (map saldo_id (saldos db))"
    and n: "naturezas_validas (plano_contas db)"
  shows "saldo_inicial r =
    spec_saldo_inicial (usar_saldo_lancado cfg) (usar_saldo_calculado cfg) (saldos db)
      (filtrar_mov (considerar_somente_conciliados cfg) (df_mov_sql db)) d1"
proof -
  let ?adm = "filtrar_mov (considerar_somente_conciliados cfg) (df_mov_sql db)"
  have v: "map valor_ajustado (antes_de ?adm d1)
      = map (\<lambda>(l, p). if natureza p = Entrada then valor l
                       else if natureza p = Saida then - valor l else 0) (antes_de ?adm d1)"
  proof (rule map_cong [OF refl])
    fix r assume "r \<in> set (antes_de ?adm d1)"
    then have "r \<in> set (df_mov_sql db)" using antes_de_subset filtrar_mov_subset by blast
    then have "snd r \<in> set (plano_contas db)" using df_mov_sql_plano [of "fst r" "snd r" db] by simp
    then have "natureza (snd r) = Entrada \<or> natureza (snd r) = Saida"
      using n by (simp add: naturezas_validas_def list_all_iff)
    then show "valor_ajustado r = (case r of (l, p) \<Rightarrow> if natureza p = Entrada then valor l
                       else if natureza p = Saida then - valor l else 0)"
      by (cases r) (auto simp: valor_ajustado_def)
  qed
  from d have "saldo_inicial r =
      (if usar_saldo_calculado cfg
       then (if usar_saldo_lancado cfg then (case saldo_sql (saldos db) ''Inicial'' d1 of None \<Rightarrow> 0 | Some s \<Rightarrow> valor_saldo s) else 0)
            + sum_list (map valor_ajustado (antes_de ?adm d1))
       else (if usar_saldo_lancado cfg then (case saldo_sql (saldos db) ''Inicial'' d1 of None \<Rightarrow> 0 | Some s \<Rightarrow> valor_saldo s) else 0))"
    by (auto simp: dfc_calculo_def Let_def split: if_splits prod.splits option.splits)
  then show ?thesis
    by (simp add: spec_saldo_inicial_def saldo_sql_spec [OF i] v)
qed


section \<open>Claim about the roll-up\<close>


declare total_no.simps [simp del]











text \<open>A chart as \<open>transformar_plano\<close> writes it: codes stripped, nature read off the first
  character of the code.\<close>

definition plano_importado :: "conta list \<Rightarrow> bool" where
  "plano_importado df_plano =
     list_all (\<lambda>p. codigo p = strip (codigo p)
                \<and> natureza p = (if startswith (codigo p) ''1'' then Entrada else Saida))
              df_plano"


lemma importado_naturezas: "plano_importado df_plano \<Longrightarrow> naturezas_validas df_plano"
  by (auto simp: plano_importado_def naturezas_validas_def list_all_iff)





















end
